theory Spec2Isabelle
  imports Main "HOL-Library.Multiset"
begin

section \<open>Broker configuration (package config)\<close>

text \<open>
  The routing table is the protobuf message \<open>TargetsConfig\<close>: a map from the persistence
  string of a broker key to a \<open>Broker\<close>; a broker has an optional \<open>DecoupleQueue\<close> (a Go
  pointer the code tests against \<open>nil\<close>) and a map from target names to targets.

  Go maps are association lists here: the order of the list stands for the order in which
  one \<open>range\<close> loop happens to visit the entries, lookup is \<open>map_of\<close>. A \<open>nil\<close> map and
  an empty map are both the empty list: Go reads and ranges over them alike, and the code
  only reads. Pointers to messages that the code dereferences without a test (the brokers
  and targets stored in the maps) are taken to be non-nil and are plain values; the
  pointers the code does test (\<open>val\<close>, \<open>DecoupleQueue\<close>) are options, \<open>None\<close> for
  \<open>nil\<close>.
\<close>

text \<open>Modelled from the spec: the enum \<open>config.State\<close> is generated code that is not part of
  the sources at hand; the spec lists its values as UNKNOWN, CREATING, READY, FAILED.\<close>

datatype State = State_UNKNOWN | State_CREATING | State_READY | State_FAILED

record Queue =
  Topic :: string
  State :: State

record Target =
  FilterAttributes :: "(string \<times> string) list"

record Broker =
  DecoupleQueue :: "Queue option"
  Targets :: "(string \<times> Target) list"

record TargetsConfig =
  Brokers :: "(string \<times> Broker) list"

record BrokerKey =
  namespace :: string
  name :: string

text \<open>Modelled from the spec: \<open>BrokerKey.PersistenceString\<close> is declared outside the sources
  at hand; the spec calls it the canonical persistence string used as a map key, and the
  comment on \<open>GetTargetByKey\<close> gives the format namespace/brokerName.\<close>

definition PersistenceString :: "BrokerKey \<Rightarrow> string" where
  "PersistenceString key = namespace key @ ''/'' @ name key"

subsection \<open>The cached copy: an atomic.Value\<close>

text \<open>
  An \<open>atomic.Value\<close> that was never stored to loads the nil interface; after
  \<open>Store(t)\<close> it loads the pointer \<open>t\<close>, which may itself be a nil \<open>*TargetsConfig\<close>.
  So the cell is an option of an option: \<open>None\<close> is the nil interface, \<open>Some None\<close> a
  stored nil pointer, \<open>Some (Some c)\<close> a stored configuration.
\<close>

record CachedTargets =
  Value :: "TargetsConfig option option"

text \<open>The run-time panics of the code in scope: the single-valued type assertion
  \<open>x.(*TargetsConfig)\<close> panics when \<open>x\<close> is the nil interface.\<close>

datatype panic = InterfaceConversion

definition Store :: "CachedTargets \<Rightarrow> TargetsConfig option \<Rightarrow> CachedTargets" where
  "Store ct t = ct\<lparr>Value := Some t\<rparr>"

definition Load :: "CachedTargets \<Rightarrow> panic + TargetsConfig option" where
  "Load ct = (case Value ct of
                None \<Rightarrow> Inl InterfaceConversion
              | Some t \<Rightarrow> Inr t)"

text \<open>
  \<open>RangeAllTargets\<close> calls the visitor on every target of every broker until the visitor
  answers \<open>false\<close>; the \<open>return\<close> in the inner \<open>for\<close> ends the outer one too.
  The Go visitor is a closure that writes to a captured variable: here it takes and
  returns that variable.
\<close>

fun rangeTargets :: "(Target \<Rightarrow> 's \<Rightarrow> bool \<times> 's) \<Rightarrow> Target list \<Rightarrow> 's \<Rightarrow> bool \<times> 's" where
  "rangeTargets f [] s = (True, s)"
| "rangeTargets f (t # ts) s =
     (case f t s of (c, s') \<Rightarrow> if \<not> c then (False, s') else rangeTargets f ts s')"

fun rangeBrokers :: "(Target \<Rightarrow> 's \<Rightarrow> bool \<times> 's) \<Rightarrow> Broker list \<Rightarrow> 's \<Rightarrow> 's" where
  "rangeBrokers f [] s = s"
| "rangeBrokers f (b # bs) s =
     (case rangeTargets f (map snd (Targets b)) s of
        (c, s') \<Rightarrow> if \<not> c then s' else rangeBrokers f bs s')"

definition RangeAllTargets ::
  "CachedTargets \<Rightarrow> (Target \<Rightarrow> 's \<Rightarrow> bool \<times> 's) \<Rightarrow> 's \<Rightarrow> panic + 's" where
  "RangeAllTargets ct f s =
     (case Load ct of
        Inl p \<Rightarrow> Inl p
      | Inr None \<Rightarrow> Inr s
      | Inr (Some val) \<Rightarrow> Inr (rangeBrokers f (map snd (Brokers val)) s))"

text \<open>\<open>GetBrokerByKey\<close> returns \<open>(b, ok)\<close>; \<open>None\<close> is \<open>(nil, false)\<close> and \<open>Some b\<close> is
  \<open>(b, true)\<close>.\<close>

definition GetBrokerByKey :: "CachedTargets \<Rightarrow> BrokerKey \<Rightarrow> panic + Broker option" where
  "GetBrokerByKey ct key =
     (case Load ct of
        Inl p \<Rightarrow> Inl p
      | Inr None \<Rightarrow> Inr None
      | Inr (Some val) \<Rightarrow> Inr (map_of (Brokers val) (PersistenceString key)))"

section \<open>The decouple sink (package ingress)\<close>

subsection \<open>The collaborators\<close>

text \<open>
  The Pub/Sub client is an external library (\<open>cloud.google.com/go/pubsub\<close>). Of a topic
  handle the sink uses its identity (it is a pointer) and \<open>ID()\<close>; of the client it uses
  \<open>Topic(id)\<close>, which makes a new handle, \<open>Stop()\<close> on a handle and
  \<open>Publish(msg).Get()\<close>. The client is modelled by what can be observed of it: its
  project, a counter that numbers the handles it hands out, so that two handles are the
  same pointer exactly when they are equal, and the list of the calls made on it, in
  order.

  \<open>Client.Topic(id)\<close> makes a handle whose name is \<open>projects/<project>/topics/<id>\<close>, and
  \<open>Topic.ID()\<close> returns what follows the last \<open>/\<close> of the name. A handle records the
  project and the identifier it was opened with; its name is built from them, so it always
  contains a \<open>/\<close> and the panic of \<open>ID()\<close> on a name without one cannot occur. For an
  identifier without \<open>/\<close>, \<open>ID()\<close> is the identifier; for one with \<open>/\<close> it is only
  its last segment.
\<close>

record pubsub_Topic =
  uid :: nat
  project :: string
  ident :: string

definition Topic_name :: "pubsub_Topic \<Rightarrow> string" where
  "Topic_name t = ''projects/'' @ project t @ ''/topics/'' @ ident t"

definition afterLastSlash :: "string \<Rightarrow> string" where
  "afterLastSlash s = rev (takeWhile (\<lambda>c. c \<noteq> CHR ''/'') (rev s))"

definition ID :: "pubsub_Topic \<Rightarrow> string" where
  "ID t = afterLastSlash (Topic_name t)"

datatype 'm call =
    Call_Topic pubsub_Topic
  | Call_Stop pubsub_Topic
  | Call_Publish pubsub_Topic 'm

record 'm pubsub_Client =
  projectID :: string
  fresh :: nat
  calls :: "'m call list"

definition newTopic :: "'m pubsub_Client \<Rightarrow> string \<Rightarrow> pubsub_Topic" where
  "newTopic c topicID = \<lparr>uid = fresh c, project = projectID c, ident = topicID\<rparr>"

definition Client_Topic :: "'m pubsub_Client \<Rightarrow> string \<Rightarrow> pubsub_Topic \<times> 'm pubsub_Client" where
  "Client_Topic c topicID =
     (let t = newTopic c topicID
      in (t, c\<lparr>fresh := Suc (fresh c), calls := calls c @ [Call_Topic t]\<rparr>))"

definition Topic_Stop :: "pubsub_Topic \<Rightarrow> 'm pubsub_Client \<Rightarrow> 'm pubsub_Client" where
  "Topic_Stop t c = c\<lparr>calls := calls c @ [Call_Stop t]\<rparr>"

text \<open>The sentinel errors \<open>ErrNotFound\<close>, \<open>ErrIncomplete\<close> and \<open>ErrNotReady\<close> of the
  package, and an error value: either \<open>fmt.Errorf(format, broker, sentinel)\<close>, which wraps
  the sentinel, or an error of a collaborator (the encoder, the queue service).\<close>

datatype sentinel = ErrNotFound | ErrIncomplete | ErrNotReady

datatype error =
    Errorf string BrokerKey sentinel
  | External string

text \<open>
  What the sink calls and does not own: \<open>eventFilterFunc\<close> (a package variable, by default
  \<open>filter.PassFilter\<close>), the encoder \<open>cepubsub.WritePubSubMessage\<close>, and the outcome of
  \<open>topic.Publish(ctx, msg).Get(ctx)\<close>, which may depend on the calls made so far. The
  types \<open>'e\<close> of events and \<open>'m\<close> of messages are left open.
\<close>

record ('e, 'm) collaborators =
  eventFilterFunc :: "(string \<times> string) list \<Rightarrow> 'e \<Rightarrow> bool"
  WritePubSubMessage :: "'e \<Rightarrow> error + 'm"
  PublishGet :: "'m call list \<Rightarrow> pubsub_Topic \<Rightarrow> 'm \<Rightarrow> error option"

definition Topic_Publish ::
  "('e, 'm) collaborators \<Rightarrow> pubsub_Topic \<Rightarrow> 'm \<Rightarrow> 'm pubsub_Client \<Rightarrow> error option \<times> 'm pubsub_Client" where
  "Topic_Publish C t msg c =
     (PublishGet C (calls c) t msg, c\<lparr>calls := calls c @ [Call_Publish t msg]\<rparr>)"

subsection \<open>The sink\<close>

text \<open>
  The sink holds the client, the map from brokers to cached handles, the broker
  configuration and the filtering switch (\<open>publishSettings\<close> is stored and never read by
  the code in scope). \<open>brokerConfig\<close> is a reference to the store the control loop
  writes to: a write by the control loop is an update of this field between two calls.
  The functions are modelled as run by one caller at a time, so the read/write lock
  \<open>topicsMut\<close> has no counterpart.
\<close>

record 'm multiTopicDecoupleSink =
  pubsub :: "'m pubsub_Client"
  topics :: "BrokerKey \<rightharpoonup> pubsub_Topic"
  brokerConfig :: CachedTargets
  enableEventFiltering :: bool

definition NewMultiTopicDecoupleSink ::
  "CachedTargets \<Rightarrow> 'm pubsub_Client \<Rightarrow> bool \<Rightarrow> 'm multiTopicDecoupleSink" where
  "NewMultiTopicDecoupleSink cfg client enableEventFilterFunc =
     \<lparr>pubsub = client, topics = Map.empty, brokerConfig = cfg,
      enableEventFiltering = enableEventFilterFunc\<rparr>"

definition getTopicIDForBroker ::
  "'m multiTopicDecoupleSink \<Rightarrow> BrokerKey \<Rightarrow> panic + (error + string)" where
  "getTopicIDForBroker m broker =
     (case GetBrokerByKey (brokerConfig m) broker of
        Inl p \<Rightarrow> Inl p
      | Inr None \<Rightarrow> Inr (Inl (Errorf ''%q: %w'' broker ErrNotFound))
      | Inr (Some bc) \<Rightarrow>
          (case DecoupleQueue bc of
             None \<Rightarrow> Inr (Inl (Errorf ''decouple queue of %q: %w'' broker ErrIncomplete))
           | Some q \<Rightarrow>
               if Topic q = '''' then
                 Inr (Inl (Errorf ''decouple queue of %q: %w'' broker ErrIncomplete))
               else if State q \<noteq> State_READY then
                 Inr (Inl (Errorf ''%q: %w'' broker ErrNotReady))
               else Inr (Inr (Topic q))))"

definition getExistingTopic :: "'m multiTopicDecoupleSink \<Rightarrow> BrokerKey \<Rightarrow> pubsub_Topic option" where
  "getExistingTopic m broker = topics m broker"

text \<open>The last two statements of \<open>updateTopicForBroker\<close>: make the handle, store it.\<close>

definition createTopic ::
  "'m multiTopicDecoupleSink \<Rightarrow> BrokerKey \<Rightarrow> string \<Rightarrow> pubsub_Topic \<times> 'm multiTopicDecoupleSink" where
  "createTopic m broker topicID =
     (case Client_Topic (pubsub m) topicID of
        (topic, c) \<Rightarrow> (topic, m\<lparr>pubsub := c, topics := (topics m)(broker \<mapsto> topic)\<rparr>))"

definition updateTopicForBroker ::
  "'m multiTopicDecoupleSink \<Rightarrow> BrokerKey
     \<Rightarrow> panic + ((error + pubsub_Topic) \<times> 'm multiTopicDecoupleSink)" where
  "updateTopicForBroker m broker =
     (case getTopicIDForBroker m broker of
        Inl p \<Rightarrow> Inl p
      | Inr (Inl err) \<Rightarrow> Inr (Inl err, m)
      | Inr (Inr topicID) \<Rightarrow>
          (case topics m broker of
             Some topic \<Rightarrow>
               if ID topic = topicID then Inr (Inr topic, m)
               else (case createTopic (m\<lparr>pubsub := Topic_Stop topic (pubsub m)\<rparr>) broker topicID of
                       (new, m') \<Rightarrow> Inr (Inr new, m'))
           | None \<Rightarrow>
               (case createTopic m broker topicID of (new, m') \<Rightarrow> Inr (Inr new, m'))))"

definition getTopicForBroker ::
  "'m multiTopicDecoupleSink \<Rightarrow> BrokerKey
     \<Rightarrow> panic + ((error + pubsub_Topic) \<times> 'm multiTopicDecoupleSink)" where
  "getTopicForBroker m broker =
     (case getTopicIDForBroker m broker of
        Inl p \<Rightarrow> Inl p
      | Inr (Inl err) \<Rightarrow> Inr (Inl err, m)
      | Inr (Inr topicID) \<Rightarrow>
          (case getExistingTopic m broker of
             Some topic \<Rightarrow>
               if ID topic = topicID then Inr (Inr topic, m)
               else updateTopicForBroker m broker
           | None \<Rightarrow> updateTopicForBroker m broker))"

text \<open>The visitor of \<open>hasTrigger\<close>: it sets the captured flag and stops at the first
  target whose filter passes the event.\<close>

definition hasTrigger ::
  "('e, 'm) collaborators \<Rightarrow> 'm multiTopicDecoupleSink \<Rightarrow> 'e \<Rightarrow> panic + bool" where
  "hasTrigger C m event =
     RangeAllTargets (brokerConfig m)
       (\<lambda>target found.
          if eventFilterFunc C (FilterAttributes target) event then (False, True)
          else (True, found))
       False"

text \<open>The tail of \<open>Send\<close>: encode, publish, wait for the outcome.\<close>

definition publishEvent ::
  "('e, 'm) collaborators \<Rightarrow> 'm multiTopicDecoupleSink \<Rightarrow> pubsub_Topic \<Rightarrow> 'e
     \<Rightarrow> error option \<times> 'm multiTopicDecoupleSink" where
  "publishEvent C m topic event =
     (case WritePubSubMessage C event of
        Inl err \<Rightarrow> (Some err, m)
      | Inr msg \<Rightarrow>
          (case Topic_Publish C topic msg (pubsub m) of
             (r, c) \<Rightarrow> (r, m\<lparr>pubsub := c\<rparr>)))"

text \<open>\<open>Send\<close> returns the error (\<open>None\<close> for \<open>nil\<close>) and the sink as the call leaves it.
  \<open>&&\<close> does not evaluate \<open>hasTrigger\<close> when filtering is off.\<close>

definition Send ::
  "('e, 'm) collaborators \<Rightarrow> 'm multiTopicDecoupleSink \<Rightarrow> BrokerKey \<Rightarrow> 'e
     \<Rightarrow> panic + (error option \<times> 'm multiTopicDecoupleSink)" where
  "Send C m broker event =
     (case getTopicForBroker m broker of
        Inl p \<Rightarrow> Inl p
      | Inr (Inl err, m') \<Rightarrow> Inr (Some err, m')
      | Inr (Inr topic, m') \<Rightarrow>
          if enableEventFiltering m' then
            (case hasTrigger C m' event of
               Inl p \<Rightarrow> Inl p
             | Inr found \<Rightarrow>
                 if \<not> found then Inr (None, m')
                 else Inr (publishEvent C m' topic event))
          else Inr (publishEvent C m' topic event))"

subsection \<open>Callers and observations\<close>

text \<open>
  A history of the sink: the control loop stores a new configuration, or a caller sends an
  event to a broker. \<open>run\<close> performs the steps in order and stops at a panic.
\<close>

datatype 'e step =
    Reconfigure "TargetsConfig option"
  | SendEvent BrokerKey 'e

fun run ::
  "('e, 'm) collaborators \<Rightarrow> 'm multiTopicDecoupleSink \<Rightarrow> 'e step list
     \<Rightarrow> panic + 'm multiTopicDecoupleSink" where
  "run C m [] = Inr m"
| "run C m (Reconfigure t # xs) = run C (m\<lparr>brokerConfig := Store (brokerConfig m) t\<rparr>) xs"
| "run C m (SendEvent broker event # xs) =
     (case Send C m broker event of
        Inl p \<Rightarrow> Inl p
      | Inr (r, m') \<Rightarrow> run C m' xs)"




fun published :: "'m call list \<Rightarrow> (pubsub_Topic \<times> 'm) list" where
  "published [] = []"
| "published (Call_Topic t # cs) = published cs"
| "published (Call_Stop t # cs) = published cs"
| "published (Call_Publish t msg # cs) = (t, msg) # published cs"

subsection \<open>Bytes: the serialized snapshot\<close>


















subsection \<open>Example values\<close>

text \<open>A configuration with two brokers, each with one trigger, and the same configuration
  with the brokers in the other order; a client of project \<open>p\<close> and the handles it hands
  out; a sink as \<open>NewMultiTopicDecoupleSink\<close> returns it; collaborators whose filter passes
  an event when a target asks for its type, whose encoder is the identity and whose publish
  succeeds. The examples below are stated on them.\<close>

abbreviation example_config :: "Queue option \<Rightarrow> TargetsConfig" where
  "example_config q \<equiv>
     \<lparr>Brokers =
        [(''ns/b1'', \<lparr>DecoupleQueue = q,
                      Targets = [(''trigger1'', \<lparr>FilterAttributes = [(''type'', ''order'')]\<rparr>)]\<rparr>),
         (''ns/b2'', \<lparr>DecoupleQueue = Some \<lparr>Topic = ''t9'', State = State_READY\<rparr>,
                      Targets = [(''trigger2'', \<lparr>FilterAttributes = [(''type'', ''refund'')]\<rparr>)]\<rparr>)]\<rparr>"


abbreviation example_ready :: "string \<Rightarrow> TargetsConfig" where
  "example_ready topicID \<equiv> example_config (Some \<lparr>Topic = topicID, State = State_READY\<rparr>)"

abbreviation example_client :: "string pubsub_Client" where
  "example_client \<equiv> \<lparr>projectID = ''p'', fresh = 0, calls = []\<rparr>"

abbreviation example_handle :: "nat \<Rightarrow> string \<Rightarrow> pubsub_Topic" where
  "example_handle n topicID \<equiv> \<lparr>uid = n, project = ''p'', ident = topicID\<rparr>"

abbreviation example_sink :: "TargetsConfig \<Rightarrow> bool \<Rightarrow> string multiTopicDecoupleSink" where
  "example_sink cfg enable \<equiv>
     NewMultiTopicDecoupleSink \<lparr>Value = Some (Some cfg)\<rparr> example_client enable"

abbreviation example_collaborators :: "(string, string) collaborators" where
  "example_collaborators \<equiv>
     \<lparr>eventFilterFunc = (\<lambda>attributes event. (''type'', event) \<in> set attributes),
      WritePubSubMessage = (\<lambda>event. Inr event),
      PublishGet = (\<lambda>cs t msg. None)\<rparr>"

abbreviation b1 :: BrokerKey where "b1 \<equiv> \<lparr>namespace = ''ns'', name = ''b1''\<rparr>"
abbreviation b3 :: BrokerKey where "b3 \<equiv> \<lparr>namespace = ''ns'', name = ''b3''\<rparr>"

section \<open>The configuration store\<close>

text \<open>
  C1. Reading before the first write. The comment on \<open>Load\<close> promises \<open>nil\<close> when
  nothing was stored, and the accessors test for \<open>nil\<close> after \<open>Load\<close>. On the zero
  value of \<open>CachedTargets\<close>, however, the type assertion in \<open>Load\<close> panics, and
  \<open>GetBrokerByKey\<close> and \<open>RangeAllTargets\<close>, which call \<open>Load\<close> first, panic with
  it: the read path before the first \<open>Store\<close> faults instead of returning the empty
  sentinel.
\<close>

theorem Load_before_Store_panics:
  "Load \<lparr>Value = None\<rparr> = Inl InterfaceConversion
   \<and> GetBrokerByKey \<lparr>Value = None\<rparr> key = Inl InterfaceConversion
   \<and> RangeAllTargets \<lparr>Value = None\<rparr> f s = Inl InterfaceConversion"
  by (simp add: Load_def GetBrokerByKey_def RangeAllTargets_def)

text \<open>
  C8. \<open>Store(s)\<close> followed by \<open>Load()\<close> yields \<open>s\<close>, for every pointer \<open>s\<close> (a nil
  \<open>*TargetsConfig\<close> included) and every earlier content of the store.
\<close>

theorem Store_Load_roundtrip: "Load (Store ct s) = Inr s"
  by (simp add: Load_def Store_def)

section \<open>Classification of resolution failures\<close>

lemma Send_resolution_error:
  "getTopicIDForBroker m broker = Inr (Inl err) \<Longrightarrow> Send C m broker event = Inr (Some err, m)"
  by (simp add: Send_def getTopicForBroker_def)

lemma GetBrokerByKey_present:
  "Value ct = Some (Some val) \<Longrightarrow>
     GetBrokerByKey ct key = Inr (map_of (Brokers val) (PersistenceString key))"
  by (simp add: GetBrokerByKey_def Load_def)

text \<open>
  C2. A snapshot has been stored (the pointer may be \<open>nil\<close>) and the broker key is not in
  it: \<open>Send\<close> returns the error wrapping \<open>ErrNotFound\<close> and leaves the sink as it was, so
  no handle is created or closed and nothing is published.
\<close>

theorem Send_NotFound:
  assumes "Value (brokerConfig m) = Some cfg"
      and "\<forall>val. cfg = Some val \<longrightarrow> map_of (Brokers val) (PersistenceString broker) = None"
  shows "Send C m broker event = Inr (Some (Errorf ''%q: %w'' broker ErrNotFound), m)"
proof -
  have "GetBrokerByKey (brokerConfig m) broker = Inr None"
    using assms by (cases cfg) (simp_all add: GetBrokerByKey_def Load_def)
  then have "getTopicIDForBroker m broker = Inr (Inl (Errorf ''%q: %w'' broker ErrNotFound))"
    by (simp add: getTopicIDForBroker_def)
  then show ?thesis by (rule Send_resolution_error)
qed

theorem Send_NotFound_witness:
  "Value (brokerConfig (example_sink (example_ready ''t1'') False))
     = Some (Some (example_ready ''t1''))
   \<and> map_of (Brokers (example_ready ''t1'')) (PersistenceString b3) = None
   \<and> Send example_collaborators (example_sink (example_ready ''t1'') False) b3 ''order''
     = Inr (Some (Errorf ''%q: %w'' b3 ErrNotFound), example_sink (example_ready ''t1'') False)"
  using Send_NotFound [of "example_sink (example_ready ''t1'') False"
      "Some (example_ready ''t1'')" b3 example_collaborators "''order''"]
  by (simp add: NewMultiTopicDecoupleSink_def PersistenceString_def)

text \<open>
  C3. The broker is in the snapshot and its \<open>DecoupleQueue\<close> is \<open>nil\<close> or has the empty
  topic: \<open>Send\<close> returns the error wrapping \<open>ErrIncomplete\<close> and leaves the sink as it
  was (nothing is published).
\<close>

theorem Send_Incomplete:
  assumes "Value (brokerConfig m) = Some (Some val)"
      and "map_of (Brokers val) (PersistenceString broker) = Some b"
      and "DecoupleQueue b = None \<or> (\<exists>q. DecoupleQueue b = Some q \<and> Topic q = '''')"
  shows "Send C m broker event =
           Inr (Some (Errorf ''decouple queue of %q: %w'' broker ErrIncomplete), m)"
proof -
  have "getTopicIDForBroker m broker =
          Inr (Inl (Errorf ''decouple queue of %q: %w'' broker ErrIncomplete))"
    using assms by (auto simp add: getTopicIDForBroker_def GetBrokerByKey_present)
  then show ?thesis by (rule Send_resolution_error)
qed

theorem Send_Incomplete_witness:
  "Value (brokerConfig (example_sink (example_config None) False))
     = Some (Some (example_config None))
   \<and> map_of (Brokers (example_config None)) (PersistenceString b1)
     = Some \<lparr>DecoupleQueue = None,
             Targets = [(''trigger1'', \<lparr>FilterAttributes = [(''type'', ''order'')]\<rparr>)]\<rparr>
   \<and> Send example_collaborators (example_sink (example_config None) False) b1 ''order''
     = Inr (Some (Errorf ''decouple queue of %q: %w'' b1 ErrIncomplete),
            example_sink (example_config None) False)"
  using Send_Incomplete [of "example_sink (example_config None) False"
      "example_config None" b1
      "\<lparr>DecoupleQueue = None,
             Targets = [(''trigger1'', \<lparr>FilterAttributes = [(''type'', ''order'')]\<rparr>)]\<rparr>"
      example_collaborators "''order''"]
  by (simp add: NewMultiTopicDecoupleSink_def PersistenceString_def)

text \<open>
  C4. The broker is in the snapshot, its decouple queue has a topic and a state other than
  READY: \<open>Send\<close> returns the error wrapping \<open>ErrNotReady\<close> and leaves the sink as it was
  (nothing is published).
\<close>

theorem Send_NotReady:
  assumes "Value (brokerConfig m) = Some (Some val)"
      and "map_of (Brokers val) (PersistenceString broker) = Some b"
      and "DecoupleQueue b = Some q" and "Topic q \<noteq> ''''" and "State q \<noteq> State_READY"
  shows "Send C m broker event = Inr (Some (Errorf ''%q: %w'' broker ErrNotReady), m)"
proof -
  have "getTopicIDForBroker m broker = Inr (Inl (Errorf ''%q: %w'' broker ErrNotReady))"
    using assms by (simp add: getTopicIDForBroker_def GetBrokerByKey_present)
  then show ?thesis by (rule Send_resolution_error)
qed

theorem Send_NotReady_witness:
  "Value (brokerConfig (example_sink
       (example_config (Some \<lparr>Topic = ''t1'', State = State_CREATING\<rparr>)) False))
     = Some (Some (example_config (Some \<lparr>Topic = ''t1'', State = State_CREATING\<rparr>)))
   \<and> map_of (Brokers (example_config (Some \<lparr>Topic = ''t1'', State = State_CREATING\<rparr>)))
        (PersistenceString b1)
     = Some \<lparr>DecoupleQueue = Some \<lparr>Topic = ''t1'', State = State_CREATING\<rparr>,
             Targets = [(''trigger1'', \<lparr>FilterAttributes = [(''type'', ''order'')]\<rparr>)]\<rparr>
   \<and> Send example_collaborators
        (example_sink (example_config (Some \<lparr>Topic = ''t1'', State = State_CREATING\<rparr>)) False)
        b1 ''order''
     = Inr (Some (Errorf ''%q: %w'' b1 ErrNotReady),
            example_sink (example_config (Some \<lparr>Topic = ''t1'', State = State_CREATING\<rparr>)) False)"
  using Send_NotReady [of
      "example_sink (example_config (Some \<lparr>Topic = ''t1'', State = State_CREATING\<rparr>)) False"
      "example_config (Some \<lparr>Topic = ''t1'', State = State_CREATING\<rparr>)" b1
      "\<lparr>DecoupleQueue = Some \<lparr>Topic = ''t1'', State = State_CREATING\<rparr>,
             Targets = [(''trigger1'', \<lparr>FilterAttributes = [(''type'', ''order'')]\<rparr>)]\<rparr>"
      "\<lparr>Topic = ''t1'', State = State_CREATING\<rparr>"
      example_collaborators "''order''"]
  by (simp add: NewMultiTopicDecoupleSink_def PersistenceString_def)

text \<open>
  C10. The empty topic is tested before the state: a broker in the snapshot whose decouple
  queue has the empty topic and a state other than READY gets the error wrapping
  \<open>ErrIncomplete\<close>, not the one wrapping \<open>ErrNotReady\<close>.
\<close>

theorem Send_Incomplete_before_NotReady:
  assumes "Value (brokerConfig m) = Some (Some val)"
      and "map_of (Brokers val) (PersistenceString broker) = Some b"
      and "DecoupleQueue b = Some q" and "Topic q = ''''" and "State q \<noteq> State_READY"
  shows "Send C m broker event =
           Inr (Some (Errorf ''decouple queue of %q: %w'' broker ErrIncomplete), m)
       \<and> Send C m broker event \<noteq> Inr (Some (Errorf ''%q: %w'' broker ErrNotReady), m)"
proof -
  have "getTopicIDForBroker m broker =
          Inr (Inl (Errorf ''decouple queue of %q: %w'' broker ErrIncomplete))"
    using assms by (simp add: getTopicIDForBroker_def GetBrokerByKey_present)
  then have "Send C m broker event =
           Inr (Some (Errorf ''decouple queue of %q: %w'' broker ErrIncomplete), m)"
    by (rule Send_resolution_error)
  then show ?thesis by simp
qed

theorem Send_Incomplete_before_NotReady_witness:
  "Value (brokerConfig (example_sink
       (example_config (Some \<lparr>Topic = '''', State = State_CREATING\<rparr>)) False))
     = Some (Some (example_config (Some \<lparr>Topic = '''', State = State_CREATING\<rparr>)))
   \<and> map_of (Brokers (example_config (Some \<lparr>Topic = '''', State = State_CREATING\<rparr>)))
        (PersistenceString b1)
     = Some \<lparr>DecoupleQueue = Some \<lparr>Topic = '''', State = State_CREATING\<rparr>,
             Targets = [(''trigger1'', \<lparr>FilterAttributes = [(''type'', ''order'')]\<rparr>)]\<rparr>
   \<and> Send example_collaborators
        (example_sink (example_config (Some \<lparr>Topic = '''', State = State_CREATING\<rparr>)) False)
        b1 ''order''
     = Inr (Some (Errorf ''decouple queue of %q: %w'' b1 ErrIncomplete),
            example_sink (example_config (Some \<lparr>Topic = '''', State = State_CREATING\<rparr>)) False)"
  using Send_Incomplete_before_NotReady [of
      "example_sink (example_config (Some \<lparr>Topic = '''', State = State_CREATING\<rparr>)) False"
      "example_config (Some \<lparr>Topic = '''', State = State_CREATING\<rparr>)" b1
      "\<lparr>DecoupleQueue = Some \<lparr>Topic = '''', State = State_CREATING\<rparr>,
             Targets = [(''trigger1'', \<lparr>FilterAttributes = [(''type'', ''order'')]\<rparr>)]\<rparr>"
      "\<lparr>Topic = '''', State = State_CREATING\<rparr>"
      example_collaborators "''order''"]
  by (simp add: NewMultiTopicDecoupleSink_def PersistenceString_def)

section \<open>Resolution and its effects\<close>


lemma newTopic_sel [simp]:
  "uid (newTopic c topicID) = fresh c"
  "project (newTopic c topicID) = projectID c"
  "ident (newTopic c topicID) = topicID"
  by (simp_all add: newTopic_def)









lemma published_append: "published (xs @ ys) = published xs @ published ys"
  by (induction xs rule: published.induct) simp_all



lemma getTopicIDForBroker_stored:
  "getTopicIDForBroker m broker = Inr x \<Longrightarrow> \<exists>cfg. Value (brokerConfig m) = Some cfg"
  by (auto simp add: getTopicIDForBroker_def GetBrokerByKey_def Load_def split: option.splits)

lemma getTopicForBroker_miss:
  assumes "getTopicIDForBroker m broker = Inr (Inr topicID)" and "topics m broker = None"
  shows "getTopicForBroker m broker =
           Inr (Inr (newTopic (pubsub m) topicID),
                m\<lparr>pubsub := (pubsub m)\<lparr>fresh := Suc (fresh (pubsub m)),
                       calls := calls (pubsub m) @ [Call_Topic (newTopic (pubsub m) topicID)]\<rparr>,
                   topics := (topics m)(broker \<mapsto> (newTopic (pubsub m) topicID))\<rparr>)"
  using assms
  by (simp add: getTopicForBroker_def getExistingTopic_def updateTopicForBroker_def
      createTopic_def Client_Topic_def Let_def)

lemma getTopicForBroker_hit:
  assumes "getTopicIDForBroker m broker = Inr (Inr topicID)"
      and "topics m broker = Some topic" and "ID topic = topicID"
  shows "getTopicForBroker m broker = Inr (Inr topic, m)"
  using assms by (simp add: getTopicForBroker_def getExistingTopic_def)

lemma getTopicForBroker_drift:
  assumes "getTopicIDForBroker m broker = Inr (Inr topicID)"
      and "topics m broker = Some old" and "ID old \<noteq> topicID"
  shows "getTopicForBroker m broker =
           Inr (Inr (newTopic (pubsub m) topicID),
                m\<lparr>pubsub := (pubsub m)\<lparr>fresh := Suc (fresh (pubsub m)),
                       calls := calls (pubsub m) @
                         [Call_Stop old, Call_Topic (newTopic (pubsub m) topicID)]\<rparr>,
                   topics := (topics m)(broker \<mapsto> (newTopic (pubsub m) topicID))\<rparr>)"
  using assms
  by (simp add: getTopicForBroker_def getExistingTopic_def updateTopicForBroker_def
      createTopic_def Client_Topic_def Topic_Stop_def Let_def newTopic_def)

lemma getTopicForBroker_error:
  "getTopicIDForBroker m broker = Inr (Inl err) \<Longrightarrow> getTopicForBroker m broker = Inr (Inl err, m)"
  by (simp add: getTopicForBroker_def)

lemma getTopicForBroker_panic:
  "getTopicIDForBroker m broker = Inl p \<Longrightarrow> getTopicForBroker m broker = Inl p"
  by (simp add: getTopicForBroker_def)

text \<open>What a resolution can do to the sink.\<close>

lemma getTopicForBroker_effect:
  assumes "getTopicForBroker m broker = Inr (x, m')"
  shows "brokerConfig m' = brokerConfig m \<and> enableEventFiltering m' = enableEventFiltering m
       \<and> published (calls (pubsub m')) = published (calls (pubsub m))
       \<and> fresh (pubsub m) \<le> fresh (pubsub m')
       \<and> (\<forall>k. k \<noteq> broker \<longrightarrow> topics m' k = topics m k)
       \<and> (topics m' broker = topics m broker
           \<or> (\<exists>topicID. topics m' broker = Some (newTopic (pubsub m) topicID))
             \<and> fresh (pubsub m) < fresh (pubsub m'))
       \<and> (\<forall>t. x = Inr t \<longrightarrow> topics m' broker = Some t)
       \<and> (\<forall>err. x = Inl err \<longrightarrow> m' = m)"
proof (cases "getTopicIDForBroker m broker")
  case (Inl p)
  with assms show ?thesis by (simp add: getTopicForBroker_panic)
next
  case (Inr y)
  show ?thesis
  proof (cases y)
    case (Inl err)
    with Inr assms show ?thesis by (auto simp add: getTopicForBroker_error)
  next
    case (Inr topicID)
    note id = \<open>getTopicIDForBroker m broker = Inr y\<close> [unfolded Inr]
    show ?thesis
    proof (cases "topics m broker")
      case None
      from assms getTopicForBroker_miss [OF id None] show ?thesis
        by (auto simp add: published_append)
    next
      case (Some t)
      show ?thesis
      proof (cases "ID t = topicID")
        case True
        from assms getTopicForBroker_hit [OF id Some True] Some show ?thesis by auto
      next
        case False
        from assms getTopicForBroker_drift [OF id Some False] show ?thesis
          by (auto simp add: published_append)
      qed
    qed
  qed
qed

lemma hasTrigger_config:
  "brokerConfig m' = brokerConfig m \<Longrightarrow> hasTrigger C m' event = hasTrigger C m event"
  by (simp add: hasTrigger_def)

lemma hasTrigger_stored:
  "Value (brokerConfig m) = Some cfg \<Longrightarrow> \<exists>found. hasTrigger C m event = Inr found"
  by (cases cfg) (auto simp add: hasTrigger_def RangeAllTargets_def Load_def)

lemma publishEvent_effect:
  assumes "publishEvent C m topic event = (r, m')"
  shows "topics m' = topics m \<and> brokerConfig m' = brokerConfig m
       \<and> enableEventFiltering m' = enableEventFiltering m
       \<and> fresh (pubsub m') = fresh (pubsub m)
       \<and> (calls (pubsub m') = calls (pubsub m)
           \<or> (\<exists>msg. calls (pubsub m') = calls (pubsub m) @ [Call_Publish topic msg]))"
  using assms
  by (auto simp add: publishEvent_def Topic_Publish_def split: sum.splits)

text \<open>Once the topic is resolved, \<open>Send\<close> returns, and all it may still do is publish to
  that topic.\<close>

lemma Send_resolved:
  assumes "getTopicForBroker m broker = Inr (Inr topic, m1)"
  shows "\<exists>r m'. Send C m broker event = Inr (r, m')
       \<and> topics m' = topics m1 \<and> brokerConfig m' = brokerConfig m
       \<and> enableEventFiltering m' = enableEventFiltering m
       \<and> fresh (pubsub m') = fresh (pubsub m1)
       \<and> (calls (pubsub m') = calls (pubsub m1)
           \<or> (\<exists>msg. calls (pubsub m') = calls (pubsub m1) @ [Call_Publish topic msg]))"
proof -
  from getTopicForBroker_effect [OF assms]
  have cfg: "brokerConfig m1 = brokerConfig m" and en: "enableEventFiltering m1 = enableEventFiltering m"
    by simp_all
  have "getTopicIDForBroker m broker \<noteq> Inl p" for p
    using assms by (auto simp add: getTopicForBroker_def)
  then obtain y where "getTopicIDForBroker m broker = Inr y"
    by (cases "getTopicIDForBroker m broker") auto
  from getTopicIDForBroker_stored [OF this] cfg
  obtain c where "Value (brokerConfig m1) = Some c" by auto
  from hasTrigger_stored [OF this, of C event]
  obtain found where found: "hasTrigger C m1 event = Inr found"
    by blast
  obtain r m' where pe: "publishEvent C m1 topic event = (r, m')"
    by (cases "publishEvent C m1 topic event")
  from publishEvent_effect [OF pe] cfg en assms found pe show ?thesis
    by (auto simp add: Send_def)
qed


lemma Send_effect:
  assumes "Send C m broker event = Inr (r, m')"
  shows "brokerConfig m' = brokerConfig m \<and> fresh (pubsub m) \<le> fresh (pubsub m')
       \<and> (\<forall>k. k \<noteq> broker \<longrightarrow> topics m' k = topics m k)
       \<and> (topics m' broker = topics m broker
           \<or> (\<exists>topicID. topics m' broker = Some (newTopic (pubsub m) topicID))
             \<and> fresh (pubsub m) < fresh (pubsub m'))"
proof (cases "getTopicForBroker m broker")
  case (Inl p)
  with assms show ?thesis by (simp add: Send_def)
next
  case (Inr y)
  obtain x m1 where y: "y = (x, m1)" by (cases y)
  note res = Inr [unfolded y]
  show ?thesis
  proof (cases x)
    case (Inl err)
    with res assms getTopicForBroker_effect [OF res] show ?thesis
      by (simp add: Send_def)
  next
    case (Inr topic)
    from Send_resolved [OF res [unfolded Inr], of C event] assms
    have "topics m' = topics m1" and "brokerConfig m' = brokerConfig m"
      and "fresh (pubsub m') = fresh (pubsub m1)"
      by auto
    with getTopicForBroker_effect [OF res] show ?thesis by simp
  qed
qed

subsection \<open>hasTrigger\<close>

lemma rangeTargets_first_match:
  "rangeTargets (\<lambda>target found. if P target then (False, True) else (True, found)) ts s
     = (if \<exists>t\<in>set ts. P t then (False, True) else (True, s))"
  by (induction ts) simp_all

lemma rangeBrokers_first_match:
  "rangeBrokers (\<lambda>target found. if P target then (False, True) else (True, found)) bs s
     = ((\<exists>b\<in>set bs. \<exists>t\<in>snd ` set (Targets b). P t) \<or> s)"
  by (induction bs) (simp_all add: rangeTargets_first_match)

lemma hasTrigger_any:
  assumes "Value (brokerConfig m) = Some (Some val)"
  shows "hasTrigger C m event =
           Inr (\<exists>b\<in>snd ` set (Brokers val). \<exists>t\<in>snd ` set (Targets b).
                  eventFilterFunc C (FilterAttributes t) event)"
  using assms
  by (simp add: hasTrigger_def RangeAllTargets_def Load_def rangeBrokers_first_match)

text \<open>
  C7. With filtering on, the interest check looks at every target of every broker of the
  snapshot, whichever broker the event is addressed to. Once the topic of the addressed
  broker is resolved, \<open>hasTrigger\<close> answers whether some target of some broker passes the
  event, and that answer alone decides what \<open>Send\<close> does: if no target anywhere passes
  the event, \<open>Send\<close> returns \<open>nil\<close> and leaves the sink as the resolution left it, with no
  message published; if some target of any broker passes it, \<open>Send\<close> encodes the event
  and publishes it to the resolved topic.
\<close>

theorem Send_filters_on_all_targets:
  assumes "enableEventFiltering m"
      and "Value (brokerConfig m) = Some (Some val)"
      and "getTopicForBroker m broker = Inr (Inr topic, m')"
  shows "hasTrigger C m event =
           Inr (\<exists>b\<in>snd ` set (Brokers val). \<exists>t\<in>snd ` set (Targets b).
                  eventFilterFunc C (FilterAttributes t) event)
       \<and> published (calls (pubsub m')) = published (calls (pubsub m))
       \<and> Send C m broker event =
           (if \<exists>b\<in>snd ` set (Brokers val). \<exists>t\<in>snd ` set (Targets b).
                  eventFilterFunc C (FilterAttributes t) event
            then (case WritePubSubMessage C event of
                    Inl err \<Rightarrow> Inr (Some err, m')
                  | Inr msg \<Rightarrow>
                      Inr (PublishGet C (calls (pubsub m')) topic msg,
                           m'\<lparr>pubsub := (pubsub m')
                                 \<lparr>calls := calls (pubsub m') @ [Call_Publish topic msg]\<rparr>\<rparr>))
            else Inr (None, m'))"
proof -
  from getTopicForBroker_effect [OF assms(3)]
  have cfg: "brokerConfig m' = brokerConfig m" and en: "enableEventFiltering m' = enableEventFiltering m"
    and pub: "published (calls (pubsub m')) = published (calls (pubsub m))"
    by simp_all
  have "hasTrigger C m' event = hasTrigger C m event"
    using cfg by (rule hasTrigger_config)
  with hasTrigger_any [OF assms(2), of C event] assms(1,3) en pub show ?thesis
    by (simp add: Send_def publishEvent_def Topic_Publish_def split: sum.splits)
qed

theorem Send_filters_on_all_targets_witness:
  "enableEventFiltering (example_sink (example_ready ''t1'') True)
   \<and> Value (brokerConfig (example_sink (example_ready ''t1'') True))
       = Some (Some (example_ready ''t1''))
   \<and> getTopicForBroker (example_sink (example_ready ''t1'') True) b1
       = Inr (Inr (example_handle 0 ''t1''),
              \<lparr>pubsub = \<lparr>projectID = ''p'', fresh = 1,
                         calls = [Call_Topic (example_handle 0 ''t1'')]\<rparr>,
               topics = [b1 \<mapsto> example_handle 0 ''t1''],
               brokerConfig = \<lparr>Value = Some (Some (example_ready ''t1''))\<rparr>,
               enableEventFiltering = True\<rparr>)
   \<and> hasTrigger example_collaborators (example_sink (example_ready ''t1'') True) ''audit''
       = Inr False
   \<and> Send example_collaborators (example_sink (example_ready ''t1'') True) b1 ''audit''
       = Inr (None,
              \<lparr>pubsub = \<lparr>projectID = ''p'', fresh = 1,
                         calls = [Call_Topic (example_handle 0 ''t1'')]\<rparr>,
               topics = [b1 \<mapsto> example_handle 0 ''t1''],
               brokerConfig = \<lparr>Value = Some (Some (example_ready ''t1''))\<rparr>,
               enableEventFiltering = True\<rparr>)
   \<and> hasTrigger example_collaborators (example_sink (example_ready ''t1'') True) ''refund''
       = Inr True
   \<and> Send example_collaborators (example_sink (example_ready ''t1'') True) b1 ''refund''
       = Inr (None,
              \<lparr>pubsub = \<lparr>projectID = ''p'', fresh = 1,
                         calls = [Call_Topic (example_handle 0 ''t1''),
                                  Call_Publish (example_handle 0 ''t1'') ''refund'']\<rparr>,
               topics = [b1 \<mapsto> example_handle 0 ''t1''],
               brokerConfig = \<lparr>Value = Some (Some (example_ready ''t1''))\<rparr>,
               enableEventFiltering = True\<rparr>)"
proof -
  have res: "getTopicForBroker (example_sink (example_ready ''t1'') True) b1
       = Inr (Inr (example_handle 0 ''t1''),
              \<lparr>pubsub = \<lparr>projectID = ''p'', fresh = 1,
                         calls = [Call_Topic (example_handle 0 ''t1'')]\<rparr>,
               topics = [b1 \<mapsto> example_handle 0 ''t1''],
               brokerConfig = \<lparr>Value = Some (Some (example_ready ''t1''))\<rparr>,
               enableEventFiltering = True\<rparr>)"
    by (simp add: NewMultiTopicDecoupleSink_def getTopicForBroker_def getTopicIDForBroker_def
        GetBrokerByKey_def Load_def PersistenceString_def getExistingTopic_def
        updateTopicForBroker_def createTopic_def Client_Topic_def Let_def newTopic_def)
  have en: "enableEventFiltering (example_sink (example_ready ''t1'') True)"
    and val: "Value (brokerConfig (example_sink (example_ready ''t1'') True))
       = Some (Some (example_ready ''t1''))"
    by (simp_all add: NewMultiTopicDecoupleSink_def)
  from Send_filters_on_all_targets [OF en val res, of example_collaborators "''audit''"]
    Send_filters_on_all_targets [OF en val res, of example_collaborators "''refund''"]
    en val res
  show ?thesis by simp
qed

subsection \<open>The handle cache\<close>









text \<open>Every cached handle was handed out by the client: this holds of a new sink, whose
  cache is empty, and every step keeps it.\<close>

lemma Send_handles_fresh:
  assumes "\<forall>k t. topics m k = Some t \<longrightarrow> uid t < fresh (pubsub m)"
      and "Send C m broker event = Inr (r, m')"
  shows "\<forall>k t. topics m' k = Some t \<longrightarrow> uid t < fresh (pubsub m')"
proof (intro allI impI)
  fix k t assume kt: "topics m' k = Some t"
  from Send_effect [OF assms(2)]
  have fr: "fresh (pubsub m) \<le> fresh (pubsub m')"
    and other: "k \<noteq> broker \<Longrightarrow> topics m' k = topics m k"
    and same: "topics m' broker = topics m broker
           \<or> (\<exists>topicID. topics m' broker = Some (newTopic (pubsub m) topicID))
             \<and> fresh (pubsub m) < fresh (pubsub m')"
    by simp_all
  show "uid t < fresh (pubsub m')"
  proof (cases "k = broker")
    case False
    with other kt assms(1) fr show ?thesis by (metis less_le_trans)
  next
    case True
    from same show ?thesis
    proof
      assume "topics m' broker = topics m broker"
      with True kt have "topics m broker = Some t" by simp
      with assms(1) have "uid t < fresh (pubsub m)" by blast
      with fr show ?thesis by simp
    next
      assume "(\<exists>topicID. topics m' broker = Some (newTopic (pubsub m) topicID))
             \<and> fresh (pubsub m) < fresh (pubsub m')"
      with True kt show ?thesis by auto
    qed
  qed
qed

lemma run_handles_fresh:
  assumes "\<forall>k t. topics m k = Some t \<longrightarrow> uid t < fresh (pubsub m)"
      and "run C m steps = Inr m'"
  shows "\<forall>k t. topics m' k = Some t \<longrightarrow> uid t < fresh (pubsub m')"
  using assms
proof (induction steps arbitrary: m)
  case Nil
  then show ?case by simp
next
  case (Cons x xs)
  show ?case
  proof (cases x)
    case (Reconfigure t)
    with Cons.prems(2)
    have "run C (m\<lparr>brokerConfig := Store (brokerConfig m) t\<rparr>) xs = Inr m'" by simp
    moreover have "\<forall>k t'. topics (m\<lparr>brokerConfig := Store (brokerConfig m) t\<rparr>) k = Some t'
        \<longrightarrow> uid t' < fresh (pubsub (m\<lparr>brokerConfig := Store (brokerConfig m) t\<rparr>))"
      using Cons.prems(1) by simp
    ultimately show ?thesis using Cons.IH by blast
  next
    case (SendEvent k e)
    with Cons.prems(2) obtain r m1 where send: "Send C m k e = Inr (r, m1)"
      and run: "run C m1 xs = Inr m'"
      by (auto split: sum.splits)
    from Send_handles_fresh [OF Cons.prems(1) send] run show ?thesis
      using Cons.IH by blast
  qed
qed

lemma new_sink_handles_fresh:
  "run C (NewMultiTopicDecoupleSink cfg client enable) steps = Inr m \<Longrightarrow>
     topics m k = Some t \<Longrightarrow> uid t < fresh (pubsub m)"
  using run_handles_fresh [of "NewMultiTopicDecoupleSink cfg client enable" C steps m]
  by (simp add: NewMultiTopicDecoupleSink_def)




section \<open>Serialization\<close>








end
